theory Spec2Isabelle
  imports Main "HOL-Library.AList"
begin

section \<open>JavaScript values as the chat component sees them\<close>

text \<open>
  The component \<open>ChatInterface\<close> (src/components/chat-interface.tsx) stores, parses and
  sends untyped JavaScript values: whatever \<open>JSON.parse\<close> and \<open>response.json()\<close>
  return. They are modelled by one datatype. JSON numbers are IEEE doubles; they are kept
  abstract as the type parameter \<open>'n\<close>, and what the runtime does with a number is a
  field of the record \<open>runtime\<close> below.
\<close>

datatype date = Valid int | Invalid
  \<comment> \<open>a \<open>Date\<close> object: its time value in milliseconds since the epoch, or Invalid Date\<close>

datatype 'n jsval =
    JNull
  | JBool bool
  | JNum 'n
  | JStr string
  | JArr "'n jsval list"
  | JObj "(string \<times> 'n jsval) list"
  | JDate date

text \<open>
  An object is the list of its own properties in property order. \<open>undefined\<close> is not a
  value of the datatype: a property read returns an option, \<open>None\<close> for \<open>undefined\<close>.
\<close>

datatype thrown = Error string string | NonError
  \<comment> \<open>a thrown value: an \<open>Error\<close> object with its \<open>name\<close> and \<open>message\<close>, or anything else\<close>

text \<open>
  The built-ins of the JavaScript runtime that the component calls and that depend on
  number formatting, on the engine or on the locale are parameters of the model.
\<close>

record 'n runtime =
  num_truthy :: "'n \<Rightarrow> bool"
    \<comment> \<open>ToBoolean on a number: false for \<open>0\<close>, \<open>-0\<close> and \<open>NaN\<close>\<close>
  num_json :: "'n \<Rightarrow> 'n jsval"
    \<comment> \<open>what \<open>JSON.parse (JSON.stringify n)\<close> is: \<open>null\<close> for a non-finite number\<close>
  ToString :: "'n jsval \<Rightarrow> string"
    \<comment> \<open>the coercion of a value that is not a string to a string\<close>
  Date_parse :: "string \<Rightarrow> date"
    \<comment> \<open>\<open>new Date(s)\<close> for a string\<close>
  Date_of_num :: "'n \<Rightarrow> date"
    \<comment> \<open>\<open>new Date(n)\<close> for a number\<close>
  toISOString :: "int \<Rightarrow> string"
    \<comment> \<open>\<open>Date.prototype.toISOString\<close> on a valid time value\<close>

fun truthy :: "'n runtime \<Rightarrow> 'n jsval \<Rightarrow> bool" where
  "truthy rt JNull = False"
| "truthy rt (JBool b) = b"
| "truthy rt (JNum n) = num_truthy rt n"
| "truthy rt (JStr s) = (s \<noteq> [])"
| "truthy rt (JArr xs) = True"
| "truthy rt (JObj kvs) = True"
| "truthy rt (JDate d) = True"

text \<open>\<open>v || d\<close> where \<open>v\<close> is the result of a property read.\<close>

definition or_else :: "'n runtime \<Rightarrow> 'n jsval option \<Rightarrow> 'n jsval \<Rightarrow> 'n jsval" where
  "or_else rt v d = (case v of None \<Rightarrow> d | Some x \<Rightarrow> if truthy rt x then x else d)"

definition String_of :: "'n runtime \<Rightarrow> 'n jsval \<Rightarrow> string" where
  "String_of rt v = (case v of JStr s \<Rightarrow> s | _ \<Rightarrow> ToString rt v)"

text \<open>
  A property read \<open>v.k\<close>, for the names the component reads (\<open>timestamp\<close>, \<open>detail\<close>,
  \<open>response\<close>, \<open>model\<close>, \<open>tokens_used\<close>; none is a property of a built-in prototype):
  on \<open>null\<close> it throws a TypeError, on an object it is the own property, on any other
  value it is \<open>undefined\<close>.
\<close>

definition null_read_message :: "string \<Rightarrow> string" where
  "null_read_message k =
     ''Cannot read properties of null (reading '' @ [CHR 0x27] @ k @ [CHR 0x27] @ '')''"

fun get_prop :: "'n jsval \<Rightarrow> string \<Rightarrow> thrown + 'n jsval option" where
  "get_prop JNull k = Inl (Error ''TypeError'' (null_read_message k))"
| "get_prop (JObj kvs) k = Inr (map_of kvs k)"
| "get_prop v k = Inr None"

text \<open>The same read where it cannot throw (the value is known not to be \<open>null\<close>).\<close>

definition read_prop :: "'n jsval \<Rightarrow> string \<Rightarrow> 'n jsval option" where
  "read_prop v k = (case get_prop v k of Inl e \<Rightarrow> None | Inr x \<Rightarrow> x)"

subsection \<open>Numbers to decimal strings\<close>

definition digit_char :: "nat \<Rightarrow> char" where
  "digit_char d = char_of (48 + d)"

fun digits :: "nat \<Rightarrow> string" where
  "digits n = (if n < 10 then [digit_char n] else digits (n div 10) @ [digit_char (n mod 10)])"

declare digits.simps [simp del]

text \<open>\<open>Date.now().toString()\<close>: the decimal digits of an integer.\<close>

definition Number_toString :: "int \<Rightarrow> string" where
  "Number_toString i = (if i < 0 then CHR ''-'' # digits (nat (- i)) else digits (nat i))"

subsection \<open>Strings\<close>

text \<open>
  \<open>String.prototype.trim\<close> removes white space and line terminators at both ends. Strings
  are byte lists here, so the white space modelled is the ASCII part of it.
\<close>

definition is_space :: "char \<Rightarrow> bool" where
  "is_space c = (c \<in> set [CHR 0x09, CHR 0x0A, CHR 0x0B, CHR 0x0C, CHR 0x0D, CHR 0x20])"

definition trim :: "string \<Rightarrow> string" where
  "trim s = rev (dropWhile is_space (rev (dropWhile is_space s)))"

fun String_includes :: "string \<Rightarrow> string \<Rightarrow> bool" where
  "String_includes [] sub = (sub = [])"
| "String_includes (c # cs) sub = (take (length sub) (c # cs) = sub \<or> String_includes cs sub)"

subsection \<open>Object spread, the Date constructor, JSON\<close>



text \<open>\<open>new Date(v)\<close> where \<open>v\<close> is the result of a property read.\<close>

fun new_Date :: "'n runtime \<Rightarrow> 'n jsval option \<Rightarrow> date" where
  "new_Date rt None = Invalid"
| "new_Date rt (Some JNull) = Valid 0"
| "new_Date rt (Some (JBool b)) = Valid (if b then 1 else 0)"
| "new_Date rt (Some (JNum n)) = Date_of_num rt n"
| "new_Date rt (Some (JStr s)) = Date_parse rt s"
| "new_Date rt (Some (JDate d)) = d"
| "new_Date rt (Some v) = Date_parse rt (ToString rt v)"

text \<open>
  \<open>JSON.stringify\<close> followed by \<open>JSON.parse\<close>, on values: a \<open>Date\<close> becomes its
  \<open>toISOString\<close> text (\<open>null\<close> when invalid), everything else keeps its shape.
\<close>

primrec to_json :: "'n runtime \<Rightarrow> 'n jsval \<Rightarrow> 'n jsval" where
  "to_json rt JNull = JNull"
| "to_json rt (JBool b) = JBool b"
| "to_json rt (JNum n) = num_json rt n"
| "to_json rt (JStr s) = JStr s"
| "to_json rt (JArr xs) = JArr (map (to_json rt) xs)"
| "to_json rt (JObj kvs) = JObj (map (map_prod (\<lambda>k. k) (to_json rt)) kvs)"
| "to_json rt (JDate d) = (case d of Valid t \<Rightarrow> JStr (toISOString rt t) | Invalid \<Rightarrow> JNull)"

text \<open>
  The string kept by \<open>localStorage\<close> under a key is modelled by what \<open>JSON.parse\<close>
  does with it: \<open>Unparseable s\<close> is the text \<open>s\<close>, on which \<open>JSON.parse\<close> throws a
  SyntaxError; \<open>Json_text v\<close> is a text that parses to the value \<open>v\<close>. The empty string
  is \<open>Unparseable []\<close>.
\<close>

datatype 'n payload = Unparseable string | Json_text "'n jsval"



definition JSON_stringify :: "'n runtime \<Rightarrow> 'n jsval \<Rightarrow> 'n payload" where
  "JSON_stringify rt v = Json_text (to_json rt v)"

section \<open>The state of the component\<close>

datatype role = User | Assistant

record 'n Message =
  msg_id :: string
  content :: "'n jsval"
  role :: role
  timestamp :: int

text \<open>
  A \<open>Message\<close> is only ever built by \<open>handleSubmit\<close>, with \<open>new Date()\<close> as its
  timestamp, so the timestamp is the time value of a valid date. Its \<open>content\<close> is a
  string by its declared type, but the assistant's content is whatever truthy value
  the backend's \<open>response\<close> field holds, so it is a value here.

  A \<open>QueryHistory\<close> entry is an object: entries read back from \<open>localStorage\<close> are
  built with a spread of what was parsed, whatever its properties.
\<close>

record toast =
  title :: string
  description :: string
  variant :: "string option"

record 'n state =
  messages :: "'n Message list"
  input :: string
  isLoading :: bool
  showHistory :: bool
  queryHistory :: "'n jsval list"
  backendUrl :: string
  localStorage :: "'n payload option"
    \<comment> \<open>what \<open>localStorage\<close> holds under the key \<open>queryHistory\<close>\<close>
  toasts :: "toast list"
    \<comment> \<open>the calls of \<open>toast\<close> made so far\<close>

text \<open>
  The state right after the first render: \<open>env\<close> is
  \<open>process.env.NEXT_PUBLIC_API_URL\<close>, and the initializer of \<open>backendUrl\<close> returns
  \<open>envUrl || ""\<close> (after a console warning).
\<close>

definition initial :: "string option \<Rightarrow> 'n payload option \<Rightarrow> 'n state" where
  "initial env stored =
     \<lparr>messages = [], input = [], isLoading = False, showHistory = False, queryHistory = [],
      backendUrl = (case env of None \<Rightarrow> [] | Some envUrl \<Rightarrow> envUrl),
      localStorage = stored, toasts = []\<rparr>"

section \<open>Loading the history (the mount effect)\<close>








section \<open>Saving to the history\<close>

definition newHistoryItem :: "int \<Rightarrow> int \<Rightarrow> 'n jsval \<Rightarrow> 'n jsval \<Rightarrow> 'n jsval" where
  "newHistoryItem now_id now_ts query response =
     JObj [(''id'', JStr (Number_toString now_id)), (''query'', query),
           (''response'', response), (''timestamp'', JDate (Valid now_ts))]"

text \<open>
  \<open>saveToHistory\<close> reads \<open>queryHistory\<close> from the render in which the running
  \<open>handleSubmit\<close> was created: the argument \<open>seen\<close>. \<open>now_id\<close> and \<open>now_ts\<close> are its
  two readings of the clock; \<open>writable\<close> says whether \<open>localStorage.setItem\<close> succeeds
  (it throws when the quota is exceeded, which the \<open>catch\<close> only logs).
\<close>

definition saveToHistory ::
  "'n runtime \<Rightarrow> 'n jsval list \<Rightarrow> int \<Rightarrow> int \<Rightarrow> bool \<Rightarrow> 'n jsval \<Rightarrow> 'n jsval \<Rightarrow>
   'n state \<Rightarrow> 'n state" where
  "saveToHistory rt seen now_id now_ts writable query response st =
     (let updatedHistory = take 50 (newHistoryItem now_id now_ts query response # seen);
          st1 = st\<lparr>queryHistory := updatedHistory\<rparr>
      in if writable then st1\<lparr>localStorage := Some (JSON_stringify rt (JArr updatedHistory))\<rparr>
         else st1)"

definition clearHistory :: "'n state \<Rightarrow> 'n state" where
  "clearHistory st =
     st\<lparr>queryHistory := [], localStorage := None,
        toasts := toasts st @ [\<lparr>title = ''History Cleared'',
                                 description = ''Query history has been cleared.'',
                                 variant = None\<rparr>]\<rparr>"

section \<open>Submitting a message\<close>

text \<open>
  \<open>handleSubmit\<close> is an async function. It runs up to \<open>await fetch(...)\<close> when the
  form is submitted (\<open>handleSubmit_start\<close>) and resumes when the call settles
  (\<open>handleSubmit_settle\<close>). What the resumed part reads from the render that created the
  handler, and not from the current state, is kept in a \<open>closure\<close>.
\<close>

record 'n fetch_call =
  url :: string
  http_method :: string
  content_type :: string
  body :: "'n payload"

record 'n closure =
  userMessage :: "'n Message"
  seen_queryHistory :: "'n jsval list"
  seen_backendUrl :: string

definition role_name :: "role \<Rightarrow> string" where
  "role_name r = (case r of User \<Rightarrow> ''user'' | Assistant \<Rightarrow> ''assistant'')"

text \<open>One element of \<open>history\<close> in the request body.\<close>

definition history_message :: "'n runtime \<Rightarrow> 'n Message \<Rightarrow> 'n jsval" where
  "history_message rt msg =
     JObj [(''role'', JStr (role_name (role msg))), (''content'', content msg),
           (''timestamp'', JStr (toISOString rt (timestamp msg)))]"

definition chat_body :: "'n runtime \<Rightarrow> 'n jsval \<Rightarrow> 'n Message list \<Rightarrow> 'n jsval" where
  "chat_body rt message msgs =
     JObj [(''message'', message), (''history'', JArr (map (history_message rt) msgs))]"

text \<open>
  \<open>now_id\<close> is the reading of \<open>Date.now()\<close> and \<open>now_ts\<close> the one of \<open>new Date()\<close>.
  The second component of the result is the call of \<open>fetch\<close>, if one is made, with the
  closure of the suspended handler.
\<close>

definition user_message :: "int \<Rightarrow> int \<Rightarrow> string \<Rightarrow> 'n Message" where
  "user_message now_id now_ts txt =
     \<lparr>msg_id = Number_toString now_id, content = JStr (trim txt), role = User,
      timestamp = now_ts\<rparr>"

definition chat_call :: "'n runtime \<Rightarrow> string \<Rightarrow> 'n jsval \<Rightarrow> 'n Message list \<Rightarrow> 'n fetch_call" where
  "chat_call rt base message msgs =
     \<lparr>url = base @ ''/api/chat'', http_method = ''POST'', content_type = ''application/json'',
      body = JSON_stringify rt (chat_body rt message msgs)\<rparr>"

definition handleSubmit_start ::
  "'n runtime \<Rightarrow> int \<Rightarrow> int \<Rightarrow> 'n state \<Rightarrow> 'n state \<times> ('n closure \<times> 'n fetch_call) option" where
  "handleSubmit_start rt now_id now_ts st =
     (if trim (input st) = [] \<or> isLoading st then (st, None)
      else
        (let um = user_message now_id now_ts (input st);
             st1 = st\<lparr>messages := messages st @ [um], input := [], isLoading := True\<rparr>
         in (st1, Some (\<lparr>userMessage = um, seen_queryHistory = queryHistory st,
                          seen_backendUrl = backendUrl st\<rparr>,
                        chat_call rt (backendUrl st) (content um) (messages st)))))"

text \<open>
  How the call settles: \<open>fetch\<close> rejects, or it resolves to a response with a status
  and a body on which \<open>response.json()\<close> either rejects or gives a value.
\<close>

datatype 'n fetched = Rejected thrown | Response nat "thrown + 'n jsval"

definition response_ok :: "nat \<Rightarrow> bool" where
  "response_ok status = (200 \<le> status \<and> status \<le> 299)"

text \<open>The four readings of the clock after the response, in the order they are made.\<close>

record ticks =
  assistant_now :: int
  assistant_date :: int
  history_now :: int
  history_date :: int

definition assistant_message :: "'n runtime \<Rightarrow> ticks \<Rightarrow> 'n jsval option \<Rightarrow> 'n Message" where
  "assistant_message rt tk response =
     \<lparr>msg_id = Number_toString (assistant_now tk + 1),
      content = or_else rt response (JStr ''No response received''),
      role = Assistant, timestamp = assistant_date tk\<rparr>"

definition response_toast :: "'n runtime \<Rightarrow> 'n jsval option \<Rightarrow> 'n jsval option \<Rightarrow> toast" where
  "response_toast rt model tokens_used =
     \<lparr>title = ''Response Generated'',
      description = ''Model: '' @ String_of rt (or_else rt model (JStr ''Unknown''))
                    @ '' | Tokens: '' @ String_of rt (or_else rt tokens_used (JStr ''N/A'')),
      variant = None\<rparr>"

text \<open>
  The \<open>try\<close> block after the \<open>await\<close>: either a thrown value, with the state
  untouched (nothing is set before the last statement that can throw), or the new
  state.
\<close>

definition handleSubmit_try ::
  "'n runtime \<Rightarrow> 'n closure \<Rightarrow> 'n fetched \<Rightarrow> ticks \<Rightarrow> bool \<Rightarrow> 'n state \<Rightarrow> thrown + 'n state" where
  "handleSubmit_try rt cl res tk writable st =
     (case res of
        Rejected e \<Rightarrow> Inl e
      | Response status js \<Rightarrow>
          if \<not> response_ok status then
            (let errorData =
                   (case js of Inl e \<Rightarrow> JObj [(''detail'', JStr ''Unknown error'')] | Inr v \<Rightarrow> v)
             in case get_prop errorData ''detail'' of
                  Inl e \<Rightarrow> Inl e
                | Inr detail \<Rightarrow>
                    Inl (Error ''Error''
                          (String_of rt
                             (or_else rt detail (JStr ''Failed to get response from backend'')))))
          else
            (case js of
               Inl e \<Rightarrow> Inl e
             | Inr data \<Rightarrow>
                 (case get_prop data ''response'' of
                    Inl e \<Rightarrow> Inl e
                  | Inr response \<Rightarrow>
                      (case get_prop data ''model'' of
                         Inl e \<Rightarrow> Inl e
                       | Inr model \<Rightarrow>
                           (case get_prop data ''tokens_used'' of
                              Inl e \<Rightarrow> Inl e
                            | Inr tokens_used \<Rightarrow>
                                (let am = assistant_message rt tk response;
                                     st1 = st\<lparr>messages := messages st @ [am]\<rparr>;
                                     st2 = saveToHistory rt (seen_queryHistory cl) (history_now tk)
                                             (history_date tk) writable
                                             (content (userMessage cl)) (content am) st1
                                 in Inr (st2\<lparr>toasts := toasts st2 @
                                           [response_toast rt model tokens_used]\<rparr>)))))))"

definition errorMessage :: "string \<Rightarrow> string \<Rightarrow> string \<Rightarrow> string" where
  "errorMessage base name message =
     (if String_includes message ''fetch'' \<or> name = ''TypeError'' then
        ''Cannot connect to backend server. Please ensure the FastAPI server is running on ''
        @ base
      else if String_includes message ''API key'' then
        ''API key not configured. Please check your backend environment variables.''
      else if String_includes message ''Rate limit'' then
        ''Rate limit exceeded. Please wait a moment before trying again.''
      else ''Failed to get response. Please try again.'')"

definition handleSubmit_catch :: "'n closure \<Rightarrow> thrown \<Rightarrow> 'n state \<Rightarrow> 'n state" where
  "handleSubmit_catch cl error st =
     (case error of
        Error name message \<Rightarrow>
          st\<lparr>toasts := toasts st @
                [\<lparr>title = ''Error'',
                  description = errorMessage (seen_backendUrl cl) name message,
                  variant = Some ''destructive''\<rparr>]\<rparr>
      | NonError \<Rightarrow> st)"

text \<open>\<open>try\<close>, \<open>catch\<close> and \<open>finally\<close> together.\<close>

definition handleSubmit_settle ::
  "'n runtime \<Rightarrow> 'n closure \<Rightarrow> 'n fetched \<Rightarrow> ticks \<Rightarrow> bool \<Rightarrow> 'n state \<Rightarrow> 'n state" where
  "handleSubmit_settle rt cl res tk writable st =
     (case handleSubmit_try rt cl res tk writable st of
        Inr st1 \<Rightarrow> st1\<lparr>isLoading := False\<rparr>
      | Inl error \<Rightarrow> (handleSubmit_catch cl error st)\<lparr>isLoading := False\<rparr>)"

section \<open>The component over time\<close>

text \<open>
  What happens to a mounted component: the user types, submits the form, clears the
  history or toggles the side bar, and an outstanding call of \<open>fetch\<close> settles (the
  one at the given position among the outstanding ones). A session is the rendered
  state, the closures of the suspended handlers and the calls of \<open>fetch\<close> made so far.
  Each handler runs on the state of the latest render. The two handlers that touch
  neither the conversation, the history nor the in-flight flag, \<open>loadHistoryItem\<close>
  and \<open>testBackendConnection\<close>, are not among the events; the console is not
  modelled.
\<close>

datatype 'n event =
    Type string
  | Submit int int
  | Settle nat "'n fetched" ticks bool
  | Clear
  | ToggleHistory

record 'n session =
  view :: "'n state"
  outstanding :: "'n closure list"
  sent :: "'n fetch_call list"

definition remove_nth :: "nat \<Rightarrow> 'a list \<Rightarrow> 'a list" where
  "remove_nth i xs = take i xs @ drop (Suc i) xs"

fun step :: "'n runtime \<Rightarrow> 'n session \<Rightarrow> 'n event \<Rightarrow> 'n session" where
  "step rt s (Type txt) = s\<lparr>view := (view s)\<lparr>input := txt\<rparr>\<rparr>"
| "step rt s (Submit now_id now_ts) =
     (case handleSubmit_start rt now_id now_ts (view s) of
        (st, None) \<Rightarrow> s\<lparr>view := st\<rparr>
      | (st, Some (cl, call)) \<Rightarrow>
          s\<lparr>view := st, outstanding := outstanding s @ [cl], sent := sent s @ [call]\<rparr>)"
| "step rt s (Settle i res tk writable) =
     (if i < length (outstanding s)
      then s\<lparr>view := handleSubmit_settle rt (outstanding s ! i) res tk writable (view s),
             outstanding := remove_nth i (outstanding s)\<rparr>
      else s)"
| "step rt s Clear = s\<lparr>view := clearHistory (view s)\<rparr>"
| "step rt s ToggleHistory = s\<lparr>view := (view s)\<lparr>showHistory := \<not> showHistory (view s)\<rparr>\<rparr>"

definition run :: "'n runtime \<Rightarrow> 'n session \<Rightarrow> 'n event list \<Rightarrow> 'n session" where
  "run rt s evs = foldl (step rt) s evs"






section \<open>History entries by their declared type\<close>

text \<open>
  The interface \<open>QueryHistory\<close>: three strings and a creation time. Every entry that
  \<open>saveToHistory\<close> builds has this shape when the query and the response are strings,
  with \<open>new Date()\<close> as its timestamp, which is the time value of a valid date.
\<close>

record QueryHistory =
  h_id :: string
  h_query :: string
  h_response :: string
  h_timestamp :: int

definition history_object :: "QueryHistory \<Rightarrow> 'n jsval" where
  "history_object e =
     JObj [(''id'', JStr (h_id e)), (''query'', JStr (h_query e)),
           (''response'', JStr (h_response e)), (''timestamp'', JDate (Valid (h_timestamp e)))]"


section \<open>Successful exchanges\<close>

text \<open>
  One exchange: the user types a text and submits it, and the call settles with a
  status and a body. It is successful when the text passes the guard, the status is in
  200..299 and the body is a JSON value other than \<open>null\<close>. \<open>exchange_entry\<close> is the
  history entry that such an exchange produces.
\<close>

record 'n exchange =
  x_text :: string
  x_now :: int
  x_date :: int
  x_status :: nat
  x_data :: "'n jsval"
  x_ticks :: ticks
  x_writable :: bool

definition exchange_events :: "'n exchange \<Rightarrow> 'n event list" where
  "exchange_events x =
     [Type (x_text x), Submit (x_now x) (x_date x),
      Settle 0 (Response (x_status x) (Inr (x_data x))) (x_ticks x) (x_writable x)]"

definition successful :: "'n exchange \<Rightarrow> bool" where
  "successful x = (trim (x_text x) \<noteq> [] \<and> response_ok (x_status x) \<and> x_data x \<noteq> JNull)"

definition exchange_entry :: "'n runtime \<Rightarrow> 'n exchange \<Rightarrow> 'n jsval" where
  "exchange_entry rt x =
     newHistoryItem (history_now (x_ticks x)) (history_date (x_ticks x)) (JStr (trim (x_text x)))
       (or_else rt (read_prop (x_data x) ''response'') (JStr ''No response received''))"

section \<open>A sample runtime\<close>

text \<open>
  One instance of the runtime's parameters, with integers for the numbers: it is used
  to run the model on concrete inputs. \<open>sample_toISOString\<close> writes the
  \<open>YYYY-MM-DDTHH:mm:ss.sssZ\<close> text of a time value (proleptic Gregorian calendar, UTC),
  and \<open>sample_Date_parse\<close> reads that format back and rejects every other text.
\<close>

definition pad :: "nat \<Rightarrow> nat \<Rightarrow> string" where
  "pad w k = replicate (w - length (digits k)) (CHR ''0'') @ digits k"

definition civil_from_days :: "int \<Rightarrow> int \<times> int \<times> int" where
  "civil_from_days z0 =
     (let z = z0 + 719468;
          era = z div 146097;
          doe = z - era * 146097;
          yoe = (doe - doe div 1460 + doe div 36524 - doe div 146096) div 365;
          doy = doe - (365 * yoe + yoe div 4 - yoe div 100);
          mp = (5 * doy + 2) div 153;
          d = doy - (153 * mp + 2) div 5 + 1;
          m = (if mp < 10 then mp + 3 else mp - 9);
          y = yoe + era * 400 + (if m \<le> 2 then 1 else 0)
      in (y, m, d))"

definition days_from_civil :: "int \<Rightarrow> int \<Rightarrow> int \<Rightarrow> int" where
  "days_from_civil y0 m d =
     (let y = (if m \<le> 2 then y0 - 1 else y0);
          era = y div 400;
          yoe = y - era * 400;
          doy = (153 * (if m > 2 then m - 3 else m + 9) + 2) div 5 + d - 1;
          doe = yoe * 365 + yoe div 4 - yoe div 100 + doy
      in era * 146097 + doe - 719468)"

definition sample_toISOString :: "int \<Rightarrow> string" where
  "sample_toISOString t =
     (let ms = t mod 86400000;
          (y, m, d) = civil_from_days (t div 86400000);
          year = (if 0 \<le> y \<and> y \<le> 9999 then pad 4 (nat y)
                  else (if y < 0 then ''-'' else ''+'') @ pad 6 (nat \<bar>y\<bar>))
      in year @ ''-'' @ pad 2 (nat m) @ ''-'' @ pad 2 (nat d) @ ''T''
         @ pad 2 (nat (ms div 3600000)) @ '':'' @ pad 2 (nat (ms div 60000 mod 60)) @ '':''
         @ pad 2 (nat (ms div 1000 mod 60)) @ ''.'' @ pad 3 (nat (ms mod 1000)) @ ''Z'')"

definition digit_value :: "char \<Rightarrow> nat option" where
  "digit_value c =
     (let k = (of_char c :: nat) in if 48 \<le> k \<and> k \<le> 57 then Some (k - 48) else None)"

fun number_of :: "nat \<Rightarrow> string \<Rightarrow> nat option" where
  "number_of acc [] = Some acc"
| "number_of acc (c # cs) =
     (case digit_value c of None \<Rightarrow> None | Some v \<Rightarrow> number_of (10 * acc + v) cs)"

definition sample_Date_parse :: "string \<Rightarrow> date" where
  "sample_Date_parse s =
     (if length s = 24 \<and> s ! 4 = CHR ''-'' \<and> s ! 7 = CHR ''-'' \<and> s ! 10 = CHR ''T''
         \<and> s ! 13 = CHR '':'' \<and> s ! 16 = CHR '':'' \<and> s ! 19 = CHR ''.'' \<and> s ! 23 = CHR ''Z''
      then (case (number_of 0 (take 4 s), number_of 0 (take 2 (drop 5 s)),
                  number_of 0 (take 2 (drop 8 s)), number_of 0 (take 2 (drop 11 s)),
                  number_of 0 (take 2 (drop 14 s)), number_of 0 (take 2 (drop 17 s)),
                  number_of 0 (take 3 (drop 20 s))) of
              (Some y, Some m, Some d, Some h, Some mi, Some sec, Some f) \<Rightarrow>
                if 1 \<le> m \<and> m \<le> 12 \<and> 1 \<le> d \<and> d \<le> 31 \<and> h < 24 \<and> mi < 60 \<and> sec < 60
                then Valid (days_from_civil (int y) (int m) (int d) * 86400000
                            + int h * 3600000 + int mi * 60000 + int sec * 1000 + int f)
                else Invalid
            | _ \<Rightarrow> Invalid)
      else Invalid)"

fun sample_ToString :: "int jsval \<Rightarrow> string" where
  "sample_ToString JNull = ''null''"
| "sample_ToString (JBool b) = (if b then ''true'' else ''false'')"
| "sample_ToString (JNum n) = Number_toString n"
| "sample_ToString (JStr s) = s"
| "sample_ToString (JArr xs) = ''[array]''"
| "sample_ToString (JObj kvs) = ''[object Object]''"
| "sample_ToString (JDate d) = (case d of Valid t \<Rightarrow> sample_toISOString t | Invalid \<Rightarrow> ''Invalid Date'')"

definition sample_runtime :: "int runtime" where
  "sample_runtime =
     \<lparr>num_truthy = (\<lambda>n. n \<noteq> 0), num_json = JNum, ToString = sample_ToString,
      Date_parse = sample_Date_parse,
      Date_of_num = (\<lambda>n. if \<bar>n\<bar> \<le> 8640000000000000 then Valid n else Invalid),
      toISOString = sample_toISOString\<rparr>"

definition sample_state :: "int state" where
  "sample_state = initial (Some ''http://localhost:8000'') None"

definition sample_session :: "int session" where
  "sample_session = \<lparr>view = sample_state, outstanding = [], sent = []\<rparr>"

definition sample_closure :: "int closure" where
  "sample_closure =
     \<lparr>userMessage = user_message 1 2 ''Hello!'', seen_queryHistory = [],
      seen_backendUrl = ''http://localhost:8000''\<rparr>"


definition sample_exchange :: "nat \<Rightarrow> int exchange" where
  "sample_exchange k =
     \<lparr>x_text = ''Hello!'', x_now = int k, x_date = int k, x_status = 200,
      x_data = JObj [(''response'', JStr ''Hi there!'')],
      x_ticks = \<lparr>assistant_now = int k, assistant_date = int k, history_now = int k,
                  history_date = int k\<rparr>,
      x_writable = True\<rparr>"

definition sample_ticks :: ticks where
  "sample_ticks = \<lparr>assistant_now = 1000, assistant_date = 1001, history_now = 1002,
                    history_date = 1003\<rparr>"

section \<open>Basic facts about the handlers\<close>

lemma get_prop_read: "v \<noteq> JNull \<Longrightarrow> get_prop v k = Inr (read_prop v k)"
  by (cases v) (simp_all add: read_prop_def)

lemma start_accepts:
  "trim (input st) \<noteq> [] \<Longrightarrow> \<not> isLoading st \<Longrightarrow>
     handleSubmit_start rt now_id now_ts st =
       (st\<lparr>messages := messages st @ [user_message now_id now_ts (input st)],
           input := [], isLoading := True\<rparr>,
        Some (\<lparr>userMessage = user_message now_id now_ts (input st),
                seen_queryHistory = queryHistory st, seen_backendUrl = backendUrl st\<rparr>,
              chat_call rt (backendUrl st) (JStr (trim (input st))) (messages st)))"
  by (simp add: handleSubmit_start_def Let_def user_message_def)

lemma try_ok:
  "response_ok status \<Longrightarrow> data \<noteq> JNull \<Longrightarrow>
     handleSubmit_try rt cl (Response status (Inr data)) tk w st =
       Inr ((saveToHistory rt (seen_queryHistory cl) (history_now tk) (history_date tk) w
              (content (userMessage cl))
              (or_else rt (read_prop data ''response'') (JStr ''No response received''))
              (st\<lparr>messages := messages st @
                     [assistant_message rt tk (read_prop data ''response'')]\<rparr>))
            \<lparr>toasts := toasts st @
               [response_toast rt (read_prop data ''model'') (read_prop data ''tokens_used'')]\<rparr>)"
  by (simp add: handleSubmit_try_def get_prop_read Let_def assistant_message_def saveToHistory_def)

lemma settle_ok:
  "response_ok status \<Longrightarrow> data \<noteq> JNull \<Longrightarrow>
     handleSubmit_settle rt cl (Response status (Inr data)) tk w st =
       (saveToHistory rt (seen_queryHistory cl) (history_now tk) (history_date tk) w
              (content (userMessage cl))
              (or_else rt (read_prop data ''response'') (JStr ''No response received''))
              (st\<lparr>messages := messages st @
                     [assistant_message rt tk (read_prop data ''response'')]\<rparr>))
            \<lparr>toasts := toasts st @
               [response_toast rt (read_prop data ''model'') (read_prop data ''tokens_used'')],
             isLoading := False\<rparr>"
  by (simp add: handleSubmit_settle_def try_ok)

lemma settle_clears_flag: "\<not> isLoading (handleSubmit_settle rt cl res tk w st)"
  by (simp add: handleSubmit_settle_def split: sum.splits)







lemma try_not_ok_unparsed:
  "\<not> response_ok status \<Longrightarrow>
     handleSubmit_try rt cl (Response status (Inl e)) tk w st = Inl (Error ''Error'' ''Unknown error'')"
  by (simp add: handleSubmit_try_def or_else_def String_of_def)

lemma try_not_ok_parsed:
  "\<not> response_ok status \<Longrightarrow> v \<noteq> JNull \<Longrightarrow>
     handleSubmit_try rt cl (Response status (Inr v)) tk w st =
       Inl (Error ''Error''
             (String_of rt (or_else rt (read_prop v ''detail'')
                                   (JStr ''Failed to get response from backend''))))"
  by (simp add: handleSubmit_try_def get_prop_read)

lemma try_not_ok_fails:
  "\<not> response_ok status \<Longrightarrow> \<exists>e. handleSubmit_try rt cl (Response status js) tk w st = Inl e"
  by (auto simp add: handleSubmit_try_def Let_def split: sum.splits)

lemma settle_failure:
  "handleSubmit_try rt cl res tk w st = Inl e \<Longrightarrow>
     messages (handleSubmit_settle rt cl res tk w st) = messages st \<and>
     queryHistory (handleSubmit_settle rt cl res tk w st) = queryHistory st \<and>
     localStorage (handleSubmit_settle rt cl res tk w st) = localStorage st"
  by (cases e) (simp_all add: handleSubmit_settle_def handleSubmit_catch_def)

section \<open>Basic facts about the history load\<close>









lemma newHistoryItem_object:
  "newHistoryItem now_id now_ts (JStr q) (JStr r)
     = history_object \<lparr>h_id = Number_toString now_id, h_query = q, h_response = r, h_timestamp = now_ts\<rparr>"
  by (simp add: newHistoryItem_def history_object_def)


text \<open>
  An entry whose timestamp is Invalid Date is written with \<open>null\<close> for its timestamp,
  and \<open>new Date(null)\<close> is the epoch: such a timestamp is not read back.
\<close>

lemma invalid_date_is_not_read_back:
  "to_json rt (JDate Invalid) = JNull \<and> new_Date rt (Some (to_json rt (JDate Invalid))) = Valid 0"
  by simp


section \<open>The sample runtime at work\<close>



section \<open>Basic facts about sequences of exchanges\<close>

lemma run_append: "run rt s (evs @ evs') = run rt (run rt s evs) evs'"
  by (simp add: run_def)

lemma one_exchange:
  assumes "outstanding s = []" and "\<not> isLoading (view s)" and "successful x"
  shows "outstanding (run rt s (exchange_events x)) = []
       \<and> \<not> isLoading (view (run rt s (exchange_events x)))
       \<and> queryHistory (view (run rt s (exchange_events x)))
           = take 50 (exchange_entry rt x # queryHistory (view s))
       \<and> localStorage (view (run rt s (exchange_events x)))
           = (if x_writable x
              then Some (JSON_stringify rt (JArr (take 50 (exchange_entry rt x # queryHistory (view s)))))
              else localStorage (view s))"
  using assms
  by (simp add: run_def exchange_events_def successful_def start_accepts settle_ok
        saveToHistory_def Let_def exchange_entry_def user_message_def remove_nth_def)

lemma take_cons_take: "take 50 (a # take 50 l) = take 50 (a # l)"
  by (simp add: take_Cons')

lemma take_map_rev: "take n (rev (map f xs)) = rev (map f (drop (length xs - n) xs))"
  by (simp add: take_rev drop_map)

lemma exchanges_history:
  assumes "outstanding s = []" and "\<not> isLoading (view s)" and "\<forall>x \<in> set xs. successful x"
  shows "outstanding (run rt s (concat (map exchange_events xs))) = []
       \<and> \<not> isLoading (view (run rt s (concat (map exchange_events xs))))
       \<and> queryHistory (view (run rt s (concat (map exchange_events xs))))
           = (if xs = [] then queryHistory (view s)
              else take 50 (rev (map (exchange_entry rt) xs) @ queryHistory (view s)))"
  using assms(3)
proof (induction xs rule: rev_induct)
  case Nil
  then show ?case using assms(1,2) by (simp add: run_def)
next
  case (snoc x xs)
  let ?s1 = "run rt s (concat (map exchange_events xs))"
  have ih: "outstanding ?s1 = []" "\<not> isLoading (view ?s1)"
    "queryHistory (view ?s1)
       = (if xs = [] then queryHistory (view s)
          else take 50 (rev (map (exchange_entry rt) xs) @ queryHistory (view s)))"
    using snoc by simp_all
  have x: "successful x" using snoc.prems by simp
  have split: "run rt s (concat (map exchange_events (xs @ [x]))) = run rt ?s1 (exchange_events x)"
    by (simp add: run_append)
  have new: "queryHistory (view (run rt ?s1 (exchange_events x)))
               = take 50 (exchange_entry rt x # queryHistory (view ?s1))"
    using one_exchange [OF ih(1) ih(2) x, of rt] by simp
  have unfolded: "rev (map (exchange_entry rt) (xs @ [x])) @ queryHistory (view s)
                    = exchange_entry rt x # rev (map (exchange_entry rt) xs) @ queryHistory (view s)"
    by simp
  have "take 50 (exchange_entry rt x # queryHistory (view ?s1))
          = take 50 (rev (map (exchange_entry rt) (xs @ [x])) @ queryHistory (view s))"
  proof (cases "xs = []")
    case True
    then show ?thesis using ih(3) by simp
  next
    case False
    then have "queryHistory (view ?s1)
                 = take 50 (rev (map (exchange_entry rt) xs) @ queryHistory (view s))"
      using ih(3) by simp
    then show ?thesis by (simp only: unfolded take_cons_take)
  qed
  then have h: "queryHistory (view (run rt ?s1 (exchange_events x)))
                  = take 50 (rev (map (exchange_entry rt) (xs @ [x])) @ queryHistory (view s))"
    using new by (rule back_subst [where P = "\<lambda>t. queryHistory (view (run rt ?s1 (exchange_events x))) = t", rotated])
  have o: "outstanding (run rt ?s1 (exchange_events x)) = []"
    and l: "\<not> isLoading (view (run rt ?s1 (exchange_events x)))"
    using one_exchange [OF ih(1) ih(2) x, of rt] by blast+
  have ne: "xs @ [x] \<noteq> []" by simp
  show ?case
    unfolding split using o l h ne by (simp only: if_False simp_thms)
qed

section \<open>Basic facts about the backend URL\<close>









section \<open>Submitting nothing\<close>



section \<open>One request in flight\<close>



section \<open>A successful exchange\<close>




section \<open>An empty response text\<close>



section \<open>An error status\<close>

text \<open>
  Claim C5 says that on a status outside 200..299 the error's message is the \<open>detail\<close>
  field of the payload when the payload parses, and \<open>Unknown error\<close> otherwise. The code
  has a third message: a payload that parses but whose \<open>detail\<close> is absent or falsy
  (here the empty string, and the empty object) gives
  \<open>Failed to get response from backend\<close>, which is neither.
\<close>

theorem error_status_message_counterexample:
  "\<not> response_ok 500
   \<and> handleSubmit_try sample_runtime sample_closure
         (Response 500 (Inr (JObj [(''detail'', JStr [])]))) sample_ticks True
         (sample_state\<lparr>messages := [user_message 1 2 ''Hello!''], isLoading := True\<rparr>)
       = Inl (Error ''Error'' ''Failed to get response from backend'')
   \<and> handleSubmit_try sample_runtime sample_closure
         (Response 500 (Inr (JObj []))) sample_ticks True
         (sample_state\<lparr>messages := [user_message 1 2 ''Hello!''], isLoading := True\<rparr>)
       = Inl (Error ''Error'' ''Failed to get response from backend'')"
  by (simp add: response_ok_def handleSubmit_try_def or_else_def String_of_def)


text \<open>
  Claim C5, amended. On a status outside 200..299 the \<open>try\<close> block always throws,
  and the \<open>Error\<close> it throws has as its message: the payload's \<open>detail\<close> when the
  payload parses and its \<open>detail\<close> is a non-empty string; \<open>Unknown error\<close> when the
  payload does not parse; \<open>Failed to get response from backend\<close> when the payload
  parses to a value other than \<open>null\<close> whose \<open>detail\<close> is absent or falsy. After a
  submission that passed the guard and a call that settled so, the conversation is the
  one before followed by the user message, with no assistant message; the history, in
  memory and in \<open>localStorage\<close>, is unchanged; and the in-flight flag is cleared.
\<close>

theorem error_status_fails_the_exchange:
  "\<not> response_ok status \<and> trim (input (view s)) \<noteq> [] \<and> \<not> isLoading (view s) \<and>
   outstanding s = [] \<longrightarrow>
     (\<exists>e. handleSubmit_try rt cl (Response status js) tk w st = Inl e)
   \<and> (js = Inr v \<and> read_prop v ''detail'' = Some (JStr d) \<and> d \<noteq> [] \<longrightarrow>
        handleSubmit_try rt cl (Response status js) tk w st = Inl (Error ''Error'' d))
   \<and> ((\<exists>x. js = Inl x) \<longrightarrow>
        handleSubmit_try rt cl (Response status js) tk w st
          = Inl (Error ''Error'' ''Unknown error''))
   \<and> (js = Inr v \<and> v \<noteq> JNull \<and>
        (read_prop v ''detail'' = None \<or> (\<exists>x. read_prop v ''detail'' = Some x \<and> \<not> truthy rt x)) \<longrightarrow>
        handleSubmit_try rt cl (Response status js) tk w st
          = Inl (Error ''Error'' ''Failed to get response from backend''))
   \<and> messages (view (run rt s [Submit now_id now_ts, Settle 0 (Response status js) tk w]))
       = messages (view s) @ [user_message now_id now_ts (input (view s))]
   \<and> queryHistory (view (run rt s [Submit now_id now_ts, Settle 0 (Response status js) tk w]))
       = queryHistory (view s)
   \<and> localStorage (view (run rt s [Submit now_id now_ts, Settle 0 (Response status js) tk w]))
       = localStorage (view s)
   \<and> \<not> isLoading (view (run rt s [Submit now_id now_ts, Settle 0 (Response status js) tk w]))"
proof (intro impI, elim conjE)
  assume nok: "\<not> response_ok status" and inp: "trim (input (view s)) \<noteq> []"
    and idle: "\<not> isLoading (view s)" and out: "outstanding s = []"
  let ?st1 = "(view s)\<lparr>messages := messages (view s) @ [user_message now_id now_ts (input (view s))],
                        input := [], isLoading := True\<rparr>"
  let ?cl = "\<lparr>userMessage = user_message now_id now_ts (input (view s)),
              seen_queryHistory = queryHistory (view s), seen_backendUrl = backendUrl (view s)\<rparr>"
  have fails: "\<exists>e. handleSubmit_try rt c (Response status js) tk w x = Inl e" for c x
    using nok by (rule try_not_ok_fails)
  have v: "view (run rt s [Submit now_id now_ts, Settle 0 (Response status js) tk w])
             = handleSubmit_settle rt ?cl (Response status js) tk w ?st1"
    using inp idle out by (simp add: run_def start_accepts)
  obtain e where e: "handleSubmit_try rt ?cl (Response status js) tk w ?st1 = Inl e"
    using fails by blast
  have a: "js = Inr v \<and> read_prop v ''detail'' = Some (JStr d) \<and> d \<noteq> [] \<longrightarrow>
        handleSubmit_try rt cl (Response status js) tk w st = Inl (Error ''Error'' d)"
  proof (intro impI, elim conjE)
    assume h: "js = Inr v" "read_prop v ''detail'' = Some (JStr d)" "d \<noteq> []"
    then have "v \<noteq> JNull" by (auto simp add: read_prop_def)
    then show "handleSubmit_try rt cl (Response status js) tk w st = Inl (Error ''Error'' d)"
      using h nok by (simp add: try_not_ok_parsed or_else_def String_of_def)
  qed
  have b: "(\<exists>x. js = Inl x) \<longrightarrow> handleSubmit_try rt cl (Response status js) tk w st
          = Inl (Error ''Error'' ''Unknown error'')"
    using nok by (auto simp add: try_not_ok_unparsed)
  have c: "js = Inr v \<and> v \<noteq> JNull \<and>
        (read_prop v ''detail'' = None \<or> (\<exists>x. read_prop v ''detail'' = Some x \<and> \<not> truthy rt x)) \<longrightarrow>
        handleSubmit_try rt cl (Response status js) tk w st
          = Inl (Error ''Error'' ''Failed to get response from backend'')"
    using nok by (auto simp add: try_not_ok_parsed or_else_def String_of_def)
  show "(\<exists>e. handleSubmit_try rt cl (Response status js) tk w st = Inl e)
   \<and> (js = Inr v \<and> read_prop v ''detail'' = Some (JStr d) \<and> d \<noteq> [] \<longrightarrow>
        handleSubmit_try rt cl (Response status js) tk w st = Inl (Error ''Error'' d))
   \<and> ((\<exists>x. js = Inl x) \<longrightarrow>
        handleSubmit_try rt cl (Response status js) tk w st
          = Inl (Error ''Error'' ''Unknown error''))
   \<and> (js = Inr v \<and> v \<noteq> JNull \<and>
        (read_prop v ''detail'' = None \<or> (\<exists>x. read_prop v ''detail'' = Some x \<and> \<not> truthy rt x)) \<longrightarrow>
        handleSubmit_try rt cl (Response status js) tk w st
          = Inl (Error ''Error'' ''Failed to get response from backend''))
   \<and> messages (view (run rt s [Submit now_id now_ts, Settle 0 (Response status js) tk w]))
       = messages (view s) @ [user_message now_id now_ts (input (view s))]
   \<and> queryHistory (view (run rt s [Submit now_id now_ts, Settle 0 (Response status js) tk w]))
       = queryHistory (view s)
   \<and> localStorage (view (run rt s [Submit now_id now_ts, Settle 0 (Response status js) tk w]))
       = localStorage (view s)
   \<and> \<not> isLoading (view (run rt s [Submit now_id now_ts, Settle 0 (Response status js) tk w]))"
    using fails a b c settle_failure [OF e] by (simp add: v settle_clears_flag)
qed


theorem error_status_fails_the_exchange_witness:
  "\<not> response_ok 500
   \<and> trim (input (view (sample_session\<lparr>view := sample_state\<lparr>input := ''Hello!''\<rparr>\<rparr>))) = ''Hello!''
   \<and> handleSubmit_try sample_runtime sample_closure
         (Response 500 (Inr (JObj [(''detail'', JStr ''model overloaded'')]))) sample_ticks True
         (sample_state\<lparr>messages := [user_message 1 2 ''Hello!''], isLoading := True\<rparr>)
       = Inl (Error ''Error'' ''model overloaded'')
   \<and> messages (view (run sample_runtime (sample_session\<lparr>view := sample_state\<lparr>input := ''Hello!''\<rparr>\<rparr>)
         [Submit 1 2,
          Settle 0 (Response 500 (Inr (JObj [(''detail'', JStr ''model overloaded'')]))) sample_ticks True]))
       = [user_message 1 2 ''Hello!'']
   \<and> queryHistory (view (run sample_runtime (sample_session\<lparr>view := sample_state\<lparr>input := ''Hello!''\<rparr>\<rparr>)
         [Submit 1 2,
          Settle 0 (Response 500 (Inr (JObj [(''detail'', JStr ''model overloaded'')]))) sample_ticks True]))
       = []"
  using error_status_fails_the_exchange
          [of 500 "sample_session\<lparr>view := sample_state\<lparr>input := ''Hello!''\<rparr>\<rparr>"
              sample_runtime sample_closure
              "Inr (JObj [(''detail'', JStr ''model overloaded'')])" sample_ticks True
              "sample_state\<lparr>messages := [user_message 1 2 ''Hello!''], isLoading := True\<rparr>"
              "JObj [(''detail'', JStr ''model overloaded'')]" "''model overloaded''" 1 2]
  by (simp add: trim_def is_space_def response_ok_def sample_session_def sample_state_def
        initial_def read_prop_def)

section \<open>Persisting and loading\<close>




section \<open>Loading more than fifty entries\<close>



section \<open>Loading a malformed payload\<close>





section \<open>The capacity of the history\<close>

text \<open>
  Claim C1. After every non-empty sequence of successful exchanges, made one after the
  other by a component with no call outstanding, the history holds the entries of the
  exchanges, newest first, followed by what it held before, cut to 50 entries: so it
  holds at most 50 entries after each append. Up to 50 exchanges on an empty history
  leave exactly their entries; after more than 50 exchanges the history is exactly the
  entries of the last 50, newest first, the older ones having been dropped from the end.
  When the last write to \<open>localStorage\<close> succeeds, the persisted payload is that same
  sequence.
\<close>

theorem history_keeps_the_last_fifty:
  "outstanding s = [] \<and> \<not> isLoading (view s) \<and> xs \<noteq> [] \<and> (\<forall>x \<in> set xs. successful x) \<longrightarrow>
     queryHistory (view (run rt s (concat (map exchange_events xs))))
       = take 50 (rev (map (exchange_entry rt) xs) @ queryHistory (view s))
   \<and> length (queryHistory (view (run rt s (concat (map exchange_events xs))))) \<le> 50
   \<and> (length xs \<le> 50 \<and> queryHistory (view s) = [] \<longrightarrow>
        queryHistory (view (run rt s (concat (map exchange_events xs))))
          = rev (map (exchange_entry rt) xs))
   \<and> (50 < length xs \<longrightarrow>
        queryHistory (view (run rt s (concat (map exchange_events xs))))
          = rev (map (exchange_entry rt) (drop (length xs - 50) xs))
        \<and> length (queryHistory (view (run rt s (concat (map exchange_events xs))))) = 50)
   \<and> (x_writable (last xs) \<longrightarrow>
        localStorage (view (run rt s (concat (map exchange_events xs))))
          = Some (JSON_stringify rt
                    (JArr (queryHistory (view (run rt s (concat (map exchange_events xs))))))))"
proof (intro impI, elim conjE)
  assume idle: "outstanding s = []" "\<not> isLoading (view s)" and ne: "xs \<noteq> []"
    and ok: "\<forall>x \<in> set xs. successful x"
  let ?h = "queryHistory (view (run rt s (concat (map exchange_events xs))))"
  have h: "?h = take 50 (rev (map (exchange_entry rt) xs) @ queryHistory (view s))"
    using exchanges_history [OF idle ok, of rt] ne by simp
  have len: "length ?h \<le> 50" by (simp add: h)
  have few: "length xs \<le> 50 \<and> queryHistory (view s) = [] \<longrightarrow> ?h = rev (map (exchange_entry rt) xs)"
    by (simp add: h)
  have many: "50 < length xs \<longrightarrow>
        ?h = rev (map (exchange_entry rt) (drop (length xs - 50) xs)) \<and> length ?h = 50"
    by (simp add: h take_map_rev)
  have stored: "x_writable (last xs) \<longrightarrow>
        localStorage (view (run rt s (concat (map exchange_events xs))))
          = Some (JSON_stringify rt (JArr ?h))"
  proof
    assume w: "x_writable (last xs)"
    obtain ys y where xs: "xs = ys @ [y]" using ne by (cases xs rule: rev_cases) auto
    let ?s1 = "run rt s (concat (map exchange_events ys))"
    have okys: "\<forall>x \<in> set ys. successful x" and oky: "successful y" using ok xs by auto
    have mid: "outstanding ?s1 = []" "\<not> isLoading (view ?s1)"
      using exchanges_history [OF idle okys, of rt] by simp_all
    have split: "run rt s (concat (map exchange_events xs)) = run rt ?s1 (exchange_events y)"
      by (simp add: xs run_append)
    show "localStorage (view (run rt s (concat (map exchange_events xs))))
          = Some (JSON_stringify rt (JArr ?h))"
      using one_exchange [OF mid oky, of rt] w xs by (simp add: run_append)
  qed
  show "?h = take 50 (rev (map (exchange_entry rt) xs) @ queryHistory (view s))
   \<and> length ?h \<le> 50
   \<and> (length xs \<le> 50 \<and> queryHistory (view s) = [] \<longrightarrow> ?h = rev (map (exchange_entry rt) xs))
   \<and> (50 < length xs \<longrightarrow>
        ?h = rev (map (exchange_entry rt) (drop (length xs - 50) xs)) \<and> length ?h = 50)
   \<and> (x_writable (last xs) \<longrightarrow>
        localStorage (view (run rt s (concat (map exchange_events xs))))
          = Some (JSON_stringify rt (JArr ?h)))"
    using h len few many stored by blast
qed


theorem history_keeps_the_last_fifty_witness:
  "outstanding sample_session = []
   \<and> length (map sample_exchange [0..<51]) = 51
   \<and> length (queryHistory (view (run sample_runtime sample_session
               (concat (map exchange_events (map sample_exchange [0..<51])))))) = 50
   \<and> queryHistory (view (run sample_runtime sample_session
               (concat (map exchange_events (map sample_exchange [0..<51])))))
       = rev (map (exchange_entry sample_runtime) (map sample_exchange [1..<51]))"
proof -
  let ?xs = "map sample_exchange [0..<51]"
  have h: "outstanding sample_session = [] \<and> \<not> isLoading (view sample_session) \<and> ?xs \<noteq> []
           \<and> (\<forall>x \<in> set ?xs. successful x)"
    by (auto simp add: sample_session_def sample_state_def initial_def sample_exchange_def
          successful_def trim_def is_space_def response_ok_def)
  note c = history_keeps_the_last_fifty [of sample_session ?xs sample_runtime, THEN mp, OF h]
  have many: "50 < length ?xs" by simp
  note d = c [THEN conjunct2, THEN conjunct2, THEN conjunct2, THEN conjunct1, THEN mp, OF many]
  have dropped: "drop (length ?xs - 50) ?xs = map sample_exchange [1..<51]"
    by (simp add: drop_map)
  show ?thesis using d h unfolding dropped by simp
qed

section \<open>A missing backend URL\<close>




end
